theory Spec2Isabelle
  imports Main "HOL-Library.Sublist" "HOL-Library.Char_ord"
begin

section \<open>Python values and strings\<close>

text \<open>
  The component is Python: attribute values are dynamically typed. The values that reach
  the entity are modelled by \<open>pyval\<close>: \<open>None\<close>, booleans, integers, strings and any other
  object that defines neither \<open>__bool__\<close> nor \<open>__len__\<close> (a datetime, say), which is
  carried by its \<open>str()\<close> rendering and is always truthy. Strings are byte strings;
  \<open>lower\<close> is \<open>str.lower\<close> on the ASCII letters and leaves every other character
  alone.
\<close>

datatype pyval = PNone | PBool bool | PInt int | PStr string | PObj string

datatype py_error = TypeError | IndexError | AttributeError

fun truthy :: "pyval \<Rightarrow> bool" where
  "truthy PNone = False"
| "truthy (PBool b) = b"
| "truthy (PInt i) = (i \<noteq> 0)"
| "truthy (PStr s) = (s \<noteq> [])"
| "truthy (PObj r) = True"

fun isinstance_bool :: "pyval \<Rightarrow> bool" where
  "isinstance_bool (PBool b) = True"
| "isinstance_bool v = False"

definition lower_char :: "char \<Rightarrow> char" where
  "lower_char c =
     (if CHR ''A'' \<le> c \<and> c \<le> CHR ''Z'' then char_of (of_char c + (32::nat)) else c)"

definition lower :: "string \<Rightarrow> string" where
  "lower s = map lower_char s"

definition startswith :: "string \<Rightarrow> string \<Rightarrow> bool" where
  "startswith s p = prefix p s"

fun digits :: "nat \<Rightarrow> string" where
  "digits n =
     (if n < 10 then [char_of (48 + n)] else digits (n div 10) @ [char_of (48 + n mod 10)])"

text \<open>\<open>py_str v\<close> is \<open>str(v)\<close>, which \<open>str.format\<close> puts in the place of \<open>{}\<close>.\<close>

fun py_str :: "pyval \<Rightarrow> string" where
  "py_str PNone = ''None''"
| "py_str (PBool b) = (if b then ''True'' else ''False'')"
| "py_str (PInt i) = (if i < 0 then CHR ''-'' # digits (nat (- i)) else digits (nat i))"
| "py_str (PStr s) = s"
| "py_str (PObj r) = r"

section \<open>Constants of the module\<close>

definition ATTR_ATTRIBUTION :: string where "ATTR_ATTRIBUTION = ''attribution''"
definition ATTR_TITLE :: string where "ATTR_TITLE = ''title''"
definition ATTR_CATEGORY :: string where "ATTR_CATEGORY = ''category''"
definition ATTR_EXTERNAL_ID :: string where "ATTR_EXTERNAL_ID = ''external_id''"
definition ATTR_PUBLICATION_DATE :: string where "ATTR_PUBLICATION_DATE = ''publication_date''"
definition ATTR_DESCRIPTION :: string where "ATTR_DESCRIPTION = ''description''"
definition ATTR_PUBLICTRANSPORT :: string where "ATTR_PUBLICTRANSPORT = ''publicTransport''"
definition ATTR_ADVICEA :: string where "ATTR_ADVICEA = ''adviceA''"
definition ATTR_ADVICEB :: string where "ATTR_ADVICEB = ''adviceB''"
definition ATTR_ADVICEOTHER :: string where "ATTR_ADVICEOTHER = ''adviceOther''"
definition ATTR_ISMAJOR :: string where "ATTR_ISMAJOR = ''isMajor''"
definition ATTR_ISENDED :: string where "ATTR_ISENDED = ''isEnded''"
definition ATTR_ISNEW :: string where "ATTR_ISNEW = ''isNew''"
definition ATTR_ISIMPACTNETWORK :: string where "ATTR_ISIMPACTNETWORK = ''isImpactNetwork''"
definition ATTR_DIVERSIONS :: string where "ATTR_DIVERSIONS = ''diversions''"
definition ATTR_TYPE :: string where "ATTR_TYPE = ''type''"
definition ATTR_SUBCATEGORY :: string where "ATTR_SUBCATEGORY = ''subCategory''"
definition ATTR_DURATION :: string where "ATTR_DURATION = ''duration''"
definition ATTR_FEATURE_TYPE :: string where "ATTR_FEATURE_TYPE = ''featureType''"
definition ATTR_ROAD :: string where "ATTR_ROAD = ''road''"
definition ATTR_COUNCIL :: string where "ATTR_COUNCIL = ''council''"
definition ATTR_PICTURE :: string where "ATTR_PICTURE = ''entity_picture''"

text \<open>A \<open>timedelta\<close> is counted in seconds.\<close>

type_synonym timedelta = int

definition minutes :: "int \<Rightarrow> timedelta" where
  "minutes m = 60 * m"

definition SCAN_INTERVAL :: timedelta where
  "SCAN_INTERVAL = minutes 5"

definition SIGNAL_DELETE_ENTITY :: "pyval \<Rightarrow> string" where
  "SIGNAL_DELETE_ENTITY x = ''nsw_transport_incident_service_feed_delete_'' @ py_str x"

definition SIGNAL_UPDATE_ENTITY :: "pyval \<Rightarrow> string" where
  "SIGNAL_UPDATE_ENTITY x = ''nsw_transport_incident_service_feed_update_'' @ py_str x"

definition VALID_HAZARDS :: "pyval list" where
  "VALID_HAZARDS =
     [PStr ''alpine'', PStr ''fire'', PStr ''flood'', PStr ''incident'', PStr ''majorevent'',
      PStr ''roadwork'']"

definition VALID_HAZARDS_STATE :: "pyval list" where
  "VALID_HAZARDS_STATE =
     [PStr ''open'', PStr ''closed'', PStr [], PNone, PStr ''none'', PStr ''None'']"

definition DEFAULT_HAZARDS :: pyval where "DEFAULT_HAZARDS = PStr ''Incident''"
definition DEFAULT_HAZARDS_STATE :: pyval where "DEFAULT_HAZARDS_STATE = PStr ''Open''"

section \<open>The feed entry and the location event\<close>

text \<open>
  A feed entry is the adapter's object; the entity reads these attributes of it.
  \<open>fe_coordinates\<close> is \<open>None\<close> or a tuple of any length.
\<close>

record feed_entry =
  fe_attribution :: pyval
  fe_title :: pyval
  fe_category :: pyval
  fe_external_id :: pyval
  fe_publication_date :: pyval
  fe_description :: pyval
  fe_otherAdvice :: pyval
  fe_publicTransport :: pyval
  fe_adviceA :: pyval
  fe_adviceB :: pyval
  fe_adviceOther :: pyval
  fe_isMajor :: pyval
  fe_isEnded :: pyval
  fe_isNew :: pyval
  fe_isImpactNetwork :: pyval
  fe_diversions :: pyval
  fe_type :: pyval
  fe_subCategory :: pyval
  fe_duration :: pyval
  fe_feature_type :: pyval
  fe_road :: pyval
  fe_council_area :: pyval
  fe_distance_to_home :: pyval
  fe_coordinates :: "pyval list option"

text \<open>
  The fields of \<open>NswTransportServiceLocationEvent\<close>, without the leading underscore.
  The last four are attributes that \<open>__init__\<close> does not create: they are \<open>None\<close> here
  until the method that assigns them has run.
\<close>

record location_event =
  ev_external_id :: pyval
  ev_name :: pyval
  ev_distance :: pyval
  ev_latitude :: pyval
  ev_longitude :: pyval
  ev_attribution :: pyval
  ev_title :: pyval
  ev_category :: pyval
  ev_publication_date :: pyval
  ev_description :: pyval
  ev_publicTransport :: pyval
  ev_adviceA :: pyval
  ev_adviceB :: pyval
  ev_adviceOther :: pyval
  ev_isMajor :: pyval
  ev_isEnded :: pyval
  ev_isNew :: pyval
  ev_isImpactNetwork :: pyval
  ev_diversions :: pyval
  ev_type :: pyval
  ev_subCategory :: pyval
  ev_duration :: pyval
  ev_road :: pyval
  ev_council_area :: pyval
  ev_hazard :: string
  ev_picture :: pyval
  ev_otherAdvice :: "pyval option"
  ev_feature_type :: "pyval option"
  ev_remove_signal_delete :: "nat option"
  ev_remove_signal_update :: "nat option"

subsection \<open>Icon and picture\<close>

definition icon :: "location_event \<Rightarrow> string" where
  "icon e =
     (if startswith (lower (ev_hazard e)) ''incident'' then ''mdi:alert''
      else if startswith (lower (ev_hazard e)) ''fire'' then ''mdi:fire''
      else if startswith (lower (ev_hazard e)) ''flood'' then ''mdi:home-flood''
      else if startswith (lower (ev_hazard e)) ''alpine'' then ''mdi:snowflake-alert''
      else if startswith (lower (ev_hazard e)) ''major'' then ''mdi:party-popper''
      else if startswith (lower (ev_hazard e)) ''roadwork'' then ''mdi:road-variant''
      else ''mdi:alarm-light'')"

definition picture :: "location_event \<Rightarrow> pyval" where
  "picture e =
     (if startswith (lower (ev_hazard e)) ''incident''
        then PStr ''https://www.livetraffic.com/images/icons/hazard/traffic-incident.gif''
      else if startswith (lower (ev_hazard e)) ''fire''
        then PStr ''https://www.livetraffic.com/images/icons/hazard/weather-bush-fire.gif''
      else if startswith (lower (ev_hazard e)) ''flood''
        then PStr ''https://www.livetraffic.com/images/icons/hazard/weather-flood.gif''
      else if startswith (lower (ev_hazard e)) ''alpine''
        then PStr ''https://www.livetraffic.com/images/icons/hazard/weather-snow-ice.gif''
      else if startswith (lower (ev_hazard e)) ''major''
        then PStr ''https://www.livetraffic.com/images/icons/hazard/major-event.gif''
      else if startswith (lower (ev_hazard e)) ''roadwork''
        then PStr ''https://www.livetraffic.com/images/icons/hazard/road-work-3.png''
      else PNone)"

text \<open>
  The table of the specification, in its words: each prefix with the icon and the image
  address it stands for.
\<close>

definition spec_hazard_table :: "(string \<times> string \<times> string) list" where
  "spec_hazard_table =
     [(''incident'', ''mdi:alert'',
         ''https://www.livetraffic.com/images/icons/hazard/traffic-incident.gif''),
      (''fire'', ''mdi:fire'',
         ''https://www.livetraffic.com/images/icons/hazard/weather-bush-fire.gif''),
      (''flood'', ''mdi:home-flood'',
         ''https://www.livetraffic.com/images/icons/hazard/weather-flood.gif''),
      (''alpine'', ''mdi:snowflake-alert'',
         ''https://www.livetraffic.com/images/icons/hazard/weather-snow-ice.gif''),
      (''major'', ''mdi:party-popper'',
         ''https://www.livetraffic.com/images/icons/hazard/major-event.gif''),
      (''roadwork'', ''mdi:road-variant'',
         ''https://www.livetraffic.com/images/icons/hazard/road-work-3.png'')]"

subsection \<open>Markup stripping\<close>

text \<open>
  \<open>re.sub("<[^<]+?>", "", s)\<close>. The pattern is a \<open><\<close>, then one or more characters
  other than \<open><\<close>, as few as possible, then a \<open>>\<close>. At a \<open><\<close> whose next character \<open>b\<close>
  is not a \<open><\<close> the match ends at the first \<open>>\<close> after \<open>b\<close>, unless a \<open><\<close> or the end of
  the string comes first; \<open>tag_end\<close> counts the characters after \<open>b\<close> up to and with that
  \<open>>\<close>. \<open>match_tag c cs\<close> is the number of characters of \<open>cs\<close> that a match starting at
  \<open>c\<close> takes. The scan goes from left to right: a match is dropped and the scan goes on
  behind it, any other character is kept.
\<close>

fun tag_end :: "string \<Rightarrow> nat option" where
  "tag_end [] = None"
| "tag_end (c # cs) =
     (if c = CHR ''>'' then Some 1
      else if c = CHR ''<'' then None
      else map_option Suc (tag_end cs))"

fun match_tag :: "char \<Rightarrow> string \<Rightarrow> nat option" where
  "match_tag c [] = None"
| "match_tag c (b # cs) =
     (if c = CHR ''<'' \<and> b \<noteq> CHR ''<'' then map_option Suc (tag_end cs) else None)"

fun re_sub_tags :: "string \<Rightarrow> string" where
  "re_sub_tags [] = []"
| "re_sub_tags (c # cs) =
     (case match_tag c cs of
        Some n \<Rightarrow> re_sub_tags (drop n cs)
      | None \<Rightarrow> c # re_sub_tags cs)"

text \<open>\<open>re.sub\<close> raises \<open>TypeError\<close> on an argument that is not a string.\<close>

definition re_sub :: "pyval \<Rightarrow> py_error + pyval" where
  "re_sub v = (case v of PStr s \<Rightarrow> Inr (PStr (re_sub_tags s)) | _ \<Rightarrow> Inl TypeError)"

definition cleanuphtml :: "pyval \<Rightarrow> py_error + pyval" where
  "cleanuphtml prop = re_sub prop"

text \<open>Whether a match of the pattern starts somewhere in the string.\<close>

fun has_tag :: "string \<Rightarrow> bool" where
  "has_tag [] = False"
| "has_tag (c # cs) = (match_tag c cs \<noteq> None \<or> has_tag cs)"

text \<open>\<open>t[i]\<close> on the coordinates: \<open>None\<close> is not subscriptable, a short tuple has no item.\<close>

definition subscript :: "pyval list option \<Rightarrow> nat \<Rightarrow> py_error + pyval" where
  "subscript t i =
     (case t of
        None \<Rightarrow> Inl TypeError
      | Some xs \<Rightarrow> if i < length xs then Inr (xs ! i) else Inl IndexError)"

subsection \<open>Marked-up text\<close>

text \<open>
  Text as markup has it: pieces of plain text, which hold no \<open><\<close>, and tags. A tag is
  \<open><\<close>, a body and \<open>>\<close>; its body starts with a character other than \<open><\<close> and holds
  no \<open><\<close> and no \<open>>\<close> after that.
\<close>

datatype piece = Text string | Tag string

fun render :: "piece \<Rightarrow> string" where
  "render (Text t) = t"
| "render (Tag b) = CHR ''<'' # b @ ''>''"

fun plain :: "piece \<Rightarrow> string" where
  "plain (Text t) = t"
| "plain (Tag b) = []"

fun well_formed :: "piece \<Rightarrow> bool" where
  "well_formed (Text t) = (CHR ''<'' \<notin> set t)"
| "well_formed (Tag []) = False"
| "well_formed (Tag (c # r)) =
     (c \<noteq> CHR ''<'' \<and> CHR ''<'' \<notin> set r \<and> CHR ''>'' \<notin> set r)"

subsection \<open>The refresh\<close>

text \<open>
  \<open>_update_from_feed\<close> assigns the fields one after the other, so an exception leaves the
  assignments before it in place: the result is the entity as it stands and the exception,
  if one was raised.
\<close>

definition update_from_feed :: "location_event \<Rightarrow> feed_entry \<Rightarrow> location_event \<times> py_error option"
  where
  "update_from_feed e feed_entry =
     (let e1 = e\<lparr>ev_attribution := fe_attribution feed_entry,
                  ev_name := fe_title feed_entry,
                  ev_category := fe_category feed_entry,
                  ev_external_id := fe_external_id feed_entry,
                  ev_publication_date := fe_publication_date feed_entry,
                  ev_description := fe_description feed_entry\<rparr>
      in case re_sub (fe_otherAdvice feed_entry) of
        Inl err \<Rightarrow> (e1, Some err)
      | Inr otherAdvice \<Rightarrow>
     (let e2 = e1\<lparr>ev_otherAdvice := Some otherAdvice,
                   ev_publicTransport := fe_publicTransport feed_entry,
                   ev_adviceA := fe_adviceA feed_entry,
                   ev_adviceB := fe_adviceB feed_entry\<rparr>
      in case re_sub (fe_adviceOther feed_entry) of
        Inl err \<Rightarrow> (e2, Some err)
      | Inr adviceOther \<Rightarrow>
     (let e3 = e2\<lparr>ev_adviceOther := adviceOther,
                   ev_isMajor := fe_isMajor feed_entry,
                   ev_isEnded := fe_isEnded feed_entry,
                   ev_isNew := fe_isNew feed_entry,
                   ev_isImpactNetwork := fe_isImpactNetwork feed_entry\<rparr>
      in case re_sub (fe_diversions feed_entry) of
        Inl err \<Rightarrow> (e3, Some err)
      | Inr diversions \<Rightarrow>
     (let e4 = e3\<lparr>ev_diversions := diversions,
                   ev_type := fe_type feed_entry,
                   ev_subCategory := fe_subCategory feed_entry,
                   ev_duration := fe_duration feed_entry,
                   ev_feature_type := Some (fe_feature_type feed_entry),
                   ev_road := fe_road feed_entry,
                   ev_council_area := fe_council_area feed_entry,
                   ev_picture := picture e3,
                   ev_distance := fe_distance_to_home feed_entry\<rparr>
      in case subscript (fe_coordinates feed_entry) 0 of
        Inl err \<Rightarrow> (e4, Some err)
      | Inr lat \<Rightarrow>
     (let e5 = e4\<lparr>ev_latitude := lat\<rparr>
      in case subscript (fe_coordinates feed_entry) 1 of
        Inl err \<Rightarrow> (e5, Some err)
      | Inr lon \<Rightarrow> (e5\<lparr>ev_longitude := lon\<rparr>, None))))))"

subsection \<open>The attribute map\<close>

definition attribute_items :: "location_event \<Rightarrow> (string \<times> pyval) list" where
  "attribute_items e =
     [(ATTR_TITLE, ev_title e),
      (ATTR_FEATURE_TYPE, PStr (ev_hazard e)),
      (ATTR_TYPE, ev_type e),
      (ATTR_SUBCATEGORY, ev_subCategory e),
      (ATTR_ROAD, ev_road e),
      (ATTR_COUNCIL, ev_council_area e),
      (ATTR_CATEGORY, ev_category e),
      (ATTR_DESCRIPTION, ev_description e),
      (ATTR_PUBLICATION_DATE, ev_publication_date e),
      (ATTR_ADVICEA, ev_adviceA e),
      (ATTR_ADVICEB, ev_adviceB e),
      (ATTR_DIVERSIONS, ev_diversions e),
      (ATTR_PUBLICTRANSPORT, ev_publicTransport e),
      (ATTR_ADVICEOTHER, ev_adviceOther e),
      (ATTR_ISMAJOR, ev_isMajor e),
      (ATTR_ISENDED, ev_isEnded e),
      (ATTR_ISNEW, ev_isNew e),
      (ATTR_ISIMPACTNETWORK, ev_isImpactNetwork e),
      (ATTR_DURATION, ev_duration e),
      (ATTR_EXTERNAL_ID, ev_external_id e),
      (ATTR_ATTRIBUTION, ev_attribution e),
      (ATTR_PICTURE, ev_picture e)]"

text \<open>The loop body of \<open>device_state_attributes\<close>, and the loop over the items.\<close>

definition add_attribute :: "string \<times> pyval \<Rightarrow> (string \<rightharpoonup> pyval) \<Rightarrow> (string \<rightharpoonup> pyval)" where
  "add_attribute kv attributes =
     (if truthy (snd kv) \<or> isinstance_bool (snd kv) then attributes(fst kv \<mapsto> snd kv)
      else attributes)"

definition device_state_attributes :: "location_event \<Rightarrow> (string \<rightharpoonup> pyval)" where
  "device_state_attributes e = fold add_attribute (attribute_items e) Map.empty"

section \<open>The host\<close>

text \<open>
  The host framework is not part of this module. What the module asks of it is kept in a
  record: the recurring timers and the dispatcher connections that are active, each under
  the handle that cancels it, the listeners on the bus, and the tasks handed to the event
  loop, in the order of the calls.
\<close>

datatype job = Update_job | Start_feed_manager | Stop_feed_manager

datatype listener = Delete_callback | Update_callback

datatype task = Async_remove | Async_update_ha_state bool | Manager_async_update

datatype event = EVENT_HOMEASSISTANT_START | EVENT_HOMEASSISTANT_STOP

record hass =
  hass_time_listeners :: "(nat \<times> job \<times> timedelta) list"
  hass_dispatcher :: "(nat \<times> string \<times> listener) list"
  hass_bus :: "(event \<times> job) list"
  hass_tasks :: "task list"
  hass_added :: "(location_event \<times> bool) list"
  hass_next_handle :: nat

text \<open>
  Modelled from the spec: \<open>async_track_time_interval\<close> of the host, which is not under
  src/. It schedules a recurring timer that runs the job at the interval, and returns
  the handle that cancels this timer.
\<close>

definition async_track_time_interval :: "hass \<Rightarrow> job \<Rightarrow> timedelta \<Rightarrow> hass \<times> nat" where
  "async_track_time_interval h action interval =
     (h\<lparr>hass_time_listeners := hass_time_listeners h @ [(hass_next_handle h, action, interval)],
        hass_next_handle := Suc (hass_next_handle h)\<rparr>,
      hass_next_handle h)"

text \<open>
  Modelled from the spec: calling the handle of a timer, which cancels that timer and no
  other.
\<close>

definition remove_time_listener :: "hass \<Rightarrow> nat \<Rightarrow> hass" where
  "remove_time_listener h k =
     h\<lparr>hass_time_listeners := filter (\<lambda>l. fst l \<noteq> k) (hass_time_listeners h)\<rparr>"

text \<open>
  Modelled from the spec: \<open>async_dispatcher_connect\<close> of the host, which subscribes a
  callback to a named signal and returns the handle that unsubscribes it.
\<close>

definition async_dispatcher_connect :: "hass \<Rightarrow> string \<Rightarrow> listener \<Rightarrow> hass \<times> nat" where
  "async_dispatcher_connect h signal target =
     (h\<lparr>hass_dispatcher := hass_dispatcher h @ [(hass_next_handle h, signal, target)],
        hass_next_handle := Suc (hass_next_handle h)\<rparr>,
      hass_next_handle h)"

text \<open>Modelled from the spec: calling the handle of a connection, which unsubscribes it.\<close>

definition remove_dispatcher :: "hass \<Rightarrow> nat \<Rightarrow> hass" where
  "remove_dispatcher h k =
     h\<lparr>hass_dispatcher := filter (\<lambda>l. fst l \<noteq> k) (hass_dispatcher h)\<rparr>"


text \<open>Modelled from the spec: \<open>hass.async_create_task\<close>, which queues the task.\<close>

definition async_create_task :: "hass \<Rightarrow> task \<Rightarrow> hass" where
  "async_create_task h t = h\<lparr>hass_tasks := hass_tasks h @ [t]\<rparr>"

text \<open>Modelled from the spec: \<open>hass.bus.async_listen_once\<close>.\<close>

definition async_listen_once :: "hass \<Rightarrow> event \<Rightarrow> job \<Rightarrow> hass" where
  "async_listen_once h ev action = h\<lparr>hass_bus := hass_bus h @ [(ev, action)]\<rparr>"

text \<open>
  Modelled from the spec: the \<open>async_add_entities\<close> function of the host, called with
  the new entities and the request for a first refresh.
\<close>

definition async_add_entities :: "hass \<Rightarrow> location_event list \<Rightarrow> bool \<Rightarrow> hass" where
  "async_add_entities h new update_before_add =
     h\<lparr>hass_added := hass_added h @ map (\<lambda>e. (e, update_before_add)) new\<rparr>"

text \<open>
  The timers that run the manager's update, which is what makes an update automatic.
\<close>

definition update_timers :: "hass \<Rightarrow> (nat \<times> job \<times> timedelta) list" where
  "update_timers h = filter (\<lambda>l. fst (snd l) = Update_job) (hass_time_listeners h)"

section \<open>The feed entity manager\<close>

text \<open>
  The manager owns the adapter \<open>self._feed_manager\<close>. Of the adapter the record keeps
  the \<open>hazard\<close> argument it was constructed with, \<open>mgr_feed_manager_hazard\<close>, and the
  lookup \<open>feed_entries.get\<close>, \<open>mgr_feed_entries\<close>, which this module only reads.
\<close>

record feed_entity_manager =
  mgr_feed_manager_hazard :: string
  mgr_feed_entries :: "pyval \<Rightarrow> feed_entry option"
  mgr_scan_interval :: timedelta
  mgr_track_time_remove_callback :: "nat option"
  mgr_hazard :: string

definition NswTransportServiceFeedEntityManager ::
  "(pyval \<Rightarrow> feed_entry option) \<Rightarrow> timedelta \<Rightarrow> string \<Rightarrow> feed_entity_manager" where
  "NswTransportServiceFeedEntityManager feed scan_interval hazard =
     \<lparr>mgr_feed_manager_hazard = hazard,
      mgr_feed_entries = feed,
      mgr_scan_interval = scan_interval,
      mgr_track_time_remove_callback = None,
      mgr_hazard = hazard\<rparr>"

definition async_init :: "hass \<Rightarrow> feed_entity_manager \<Rightarrow> hass \<times> feed_entity_manager" where
  "async_init h m =
     (case async_track_time_interval h Update_job (mgr_scan_interval m) of
        (h', remove) \<Rightarrow> (h', m\<lparr>mgr_track_time_remove_callback := Some remove\<rparr>))"

definition async_stop :: "hass \<Rightarrow> feed_entity_manager \<Rightarrow> hass" where
  "async_stop h m =
     (case mgr_track_time_remove_callback m of
        Some remove \<Rightarrow> remove_time_listener h remove
      | None \<Rightarrow> h)"

definition get_entry :: "feed_entity_manager \<Rightarrow> pyval \<Rightarrow> feed_entry option" where
  "get_entry m external_id = mgr_feed_entries m external_id"

section \<open>The location event\<close>

definition NswTransportServiceLocationEvent :: "feed_entity_manager \<Rightarrow> pyval \<Rightarrow> location_event"
  where
  "NswTransportServiceLocationEvent feed_manager external_id =
     \<lparr>ev_external_id = external_id,
      ev_name = PNone,
      ev_distance = PNone,
      ev_latitude = PNone,
      ev_longitude = PNone,
      ev_attribution = PNone,
      ev_title = PNone,
      ev_category = PNone,
      ev_publication_date = PNone,
      ev_description = PNone,
      ev_publicTransport = PNone,
      ev_adviceA = PNone,
      ev_adviceB = PNone,
      ev_adviceOther = PNone,
      ev_isMajor = PNone,
      ev_isEnded = PNone,
      ev_isNew = PNone,
      ev_isImpactNetwork = PNone,
      ev_diversions = PNone,
      ev_type = PNone,
      ev_subCategory = PNone,
      ev_duration = PNone,
      ev_road = PNone,
      ev_council_area = PNone,
      ev_hazard = mgr_hazard feed_manager,
      ev_picture = PNone,
      ev_otherAdvice = None,
      ev_feature_type = None,
      ev_remove_signal_delete = None,
      ev_remove_signal_update = None\<rparr>"

definition generate_entity :: "hass \<Rightarrow> feed_entity_manager \<Rightarrow> pyval \<Rightarrow> hass" where
  "generate_entity h m external_id =
     (let new_entity = NswTransportServiceLocationEvent m external_id
      in async_add_entities h [new_entity] True)"



definition async_added_to_hass :: "hass \<Rightarrow> location_event \<Rightarrow> hass \<times> location_event" where
  "async_added_to_hass h e =
     (case async_dispatcher_connect h (SIGNAL_DELETE_ENTITY (ev_external_id e)) Delete_callback of
        (h1, remove_delete) \<Rightarrow>
     (case async_dispatcher_connect h1 (SIGNAL_UPDATE_ENTITY (ev_external_id e)) Update_callback of
        (h2, remove_update) \<Rightarrow>
          (h2, e\<lparr>ev_remove_signal_delete := Some remove_delete,
                 ev_remove_signal_update := Some remove_update\<rparr>)))"

text \<open>
  The two handles are attributes that only \<open>async_added_to_hass\<close> creates: without them
  the call raises \<open>AttributeError\<close>.
\<close>

definition async_will_remove_from_hass :: "hass \<Rightarrow> location_event \<Rightarrow> hass \<times> py_error option"
  where
  "async_will_remove_from_hass h e =
     (case ev_remove_signal_delete e of
        None \<Rightarrow> (h, Some AttributeError)
      | Some remove_delete \<Rightarrow>
          (let h1 = remove_dispatcher h remove_delete
           in case ev_remove_signal_update e of
                None \<Rightarrow> (h1, Some AttributeError)
              | Some remove_update \<Rightarrow> (remove_dispatcher h1 remove_update, None)))"

definition delete_callback :: "hass \<Rightarrow> location_event \<Rightarrow> hass" where
  "delete_callback h e = async_create_task h Async_remove"

definition update_callback :: "hass \<Rightarrow> location_event \<Rightarrow> hass" where
  "update_callback h e = async_create_task h (Async_update_ha_state True)"

text \<open>
  \<open>async_update\<close> of the entity. A feed entry is an object and so truthy: the test
  \<open>if feed_entry\<close> fails only on \<open>None\<close>.
\<close>

definition async_update :: "feed_entity_manager \<Rightarrow> location_event \<Rightarrow> location_event \<times> py_error option"
  where
  "async_update m e =
     (case get_entry m (ev_external_id e) of
        Some feed_entry \<Rightarrow> update_from_feed e feed_entry
      | None \<Rightarrow> (e, None))"

section \<open>Configuration and platform setup\<close>

text \<open>
  The options of the configuration that this module reads itself. A field is \<open>None\<close>
  when the key is absent. Coordinates, radius and categories only pass through to the
  adapter and are left out.
\<close>

record config =
  conf_scan_interval :: "timedelta option"
  conf_hazards :: "pyval option"
  conf_hazards_state :: "pyval option"

datatype schema_error = Invalid

text \<open>\<open>vol.Coerce(str)\<close> and \<open>vol.In(container)\<close>.\<close>

definition Coerce_str :: "pyval \<Rightarrow> pyval" where
  "Coerce_str v = PStr (py_str v)"

definition In :: "pyval list \<Rightarrow> pyval \<Rightarrow> schema_error + pyval" where
  "In container v = (if v \<in> set container then Inr v else Inl Invalid)"

text \<open>
  The two hazard options of \<open>PLATFORM_SCHEMA\<close>: an absent key gets the default, and the
  value, the default too, is coerced to a string and looked up in the list of valid values.
\<close>

definition PLATFORM_SCHEMA :: "config \<Rightarrow> schema_error + config" where
  "PLATFORM_SCHEMA c =
     (case In VALID_HAZARDS
             (Coerce_str (case conf_hazards c of None \<Rightarrow> DEFAULT_HAZARDS | Some v \<Rightarrow> v)) of
        Inl err \<Rightarrow> Inl err
      | Inr hazards \<Rightarrow>
     (case In VALID_HAZARDS_STATE
             (Coerce_str
                (case conf_hazards_state c of None \<Rightarrow> DEFAULT_HAZARDS_STATE | Some v \<Rightarrow> v)) of
        Inl err \<Rightarrow> Inl err
      | Inr hazards_state \<Rightarrow>
          Inr (c\<lparr>conf_hazards := Some hazards, conf_hazards_state := Some hazards_state\<rparr>)))"

text \<open>\<open>config.get(key)\<close>, and the method call \<open>v.lower()\<close>, which only a string has.\<close>

definition config_get :: "pyval option \<Rightarrow> pyval" where
  "config_get field = (case field of None \<Rightarrow> PNone | Some v \<Rightarrow> v)"

definition py_lower :: "pyval \<Rightarrow> py_error + string" where
  "py_lower v = (case v of PStr s \<Rightarrow> Inr (lower s) | _ \<Rightarrow> Inl AttributeError)"

text \<open>The hazard key of \<open>async_setup_platform\<close>, lines 109 to 112.\<close>

definition setup_hazard :: "config \<Rightarrow> py_error + string" where
  "setup_hazard c =
     (case py_lower (config_get (conf_hazards_state c)) of
        Inl err \<Rightarrow> Inl err
      | Inr state \<Rightarrow>
          if state = ''none'' then
            (case py_lower (config_get (conf_hazards c)) of
               Inl err \<Rightarrow> Inl err
             | Inr hazards \<Rightarrow> Inr hazards)
          else
            (case py_lower (config_get (conf_hazards c)) of
               Inl err \<Rightarrow> Inl err
             | Inr hazards \<Rightarrow>
                 (case py_lower (config_get (conf_hazards_state c)) of
                    Inl err \<Rightarrow> Inl err
                  | Inr state' \<Rightarrow> Inr (hazards @ ''-'' @ state'))))"

definition async_setup_platform ::
  "(pyval \<Rightarrow> feed_entry option) \<Rightarrow> hass \<Rightarrow> config \<Rightarrow> py_error + hass \<times> feed_entity_manager"
  where
  "async_setup_platform feed h c =
     (let scan_interval =
            (case conf_scan_interval c of None \<Rightarrow> SCAN_INTERVAL | Some i \<Rightarrow> i)
      in case setup_hazard c of
           Inl err \<Rightarrow> Inl err
         | Inr hazard \<Rightarrow>
             (let manager = NswTransportServiceFeedEntityManager feed scan_interval hazard;
                  h1 = async_listen_once h EVENT_HOMEASSISTANT_START Start_feed_manager;
                  h2 = async_listen_once h1 EVENT_HOMEASSISTANT_STOP Stop_feed_manager;
                  h3 = async_create_task h2 Manager_async_update
              in Inr (h3, manager)))"

text \<open>
  The rule of the specification for the hazard key, in its words: the hazard alone when
  the state, with its case folded, is \<open>none\<close>; the hazard, a hyphen and the state
  otherwise; all in lower case.
\<close>

definition spec_hazard_key :: "string \<Rightarrow> string \<Rightarrow> string" where
  "spec_hazard_key hazards hazards_state =
     (if lower hazards_state = ''none'' then lower hazards
      else lower hazards @ ''-'' @ lower hazards_state)"

section \<open>Jobs and the life of an entity\<close>

text \<open>
  \<open>async_update\<close> of the manager awaits the adapter's update, which replaces the
  adapter's entries; the new entries are a parameter here.
\<close>

definition manager_async_update ::
  "(pyval \<Rightarrow> feed_entry option) \<Rightarrow> feed_entity_manager \<Rightarrow> feed_entity_manager" where
  "manager_async_update feed m = m\<lparr>mgr_feed_entries := feed\<rparr>"

text \<open>
  The three closures the module hands to the host: \<open>update\<close> of \<open>async_init\<close>, and
  \<open>start_feed_manager\<close> and \<open>stop_feed_manager\<close> of \<open>async_setup_platform\<close>.
\<close>

fun run_job ::
  "job \<Rightarrow> (pyval \<Rightarrow> feed_entry option) \<Rightarrow> hass \<times> feed_entity_manager \<Rightarrow>
   hass \<times> feed_entity_manager" where
  "run_job Update_job feed (h, m) = (h, manager_async_update feed m)"
| "run_job Start_feed_manager feed (h, m) = async_init h m"
| "run_job Stop_feed_manager feed (h, m) = (async_stop h m, m)"

text \<open>
  What can happen to an entity: a refresh against the manager as it is then, the attach
  and detach hooks, and the two signals.
\<close>

datatype entity_event =
  Refresh feed_entity_manager | Added_to_hass | Will_remove_from_hass | Delete_signal
  | Update_signal

fun entity_step :: "entity_event \<Rightarrow> hass \<times> location_event \<Rightarrow> hass \<times> location_event" where
  "entity_step (Refresh m) (h, e) = (h, fst (async_update m e))"
| "entity_step Added_to_hass (h, e) = async_added_to_hass h e"
| "entity_step Will_remove_from_hass (h, e) = (fst (async_will_remove_from_hass h e), e)"
| "entity_step Delete_signal (h, e) = (delete_callback h e, e)"
| "entity_step Update_signal (h, e) = (update_callback h e, e)"

definition entity_run ::
  "entity_event list \<Rightarrow> hass \<times> location_event \<Rightarrow> hass \<times> location_event" where
  "entity_run evs s = fold entity_step evs s"


section \<open>Example values\<close>

definition example_manager :: "string \<Rightarrow> feed_entity_manager" where
  "example_manager hazard =
     NswTransportServiceFeedEntityManager (\<lambda>x. None) SCAN_INTERVAL hazard"

definition example_event :: "string \<Rightarrow> location_event" where
  "example_event hazard =
     NswTransportServiceLocationEvent (example_manager hazard) (PStr ''7'')"

definition example_hass :: hass where
  "example_hass =
     \<lparr>hass_time_listeners = [], hass_dispatcher = [], hass_bus = [], hass_tasks = [],
      hass_added = [], hass_next_handle = 0\<rparr>"

definition example_entry :: feed_entry where
  "example_entry =
     \<lparr>fe_attribution = PStr ''State of New South Wales (Transport for NSW)'',
      fe_title = PStr ''CRASH Car and truck'',
      fe_category = PStr ''CRASH'',
      fe_external_id = PStr ''7'',
      fe_publication_date = PObj ''2020-05-01 10:00:00+10:00'',
      fe_description = PStr [],
      fe_otherAdvice = PStr ''<p>Allow extra time</p>'',
      fe_publicTransport = PStr [],
      fe_adviceA = PStr ''<b>Reduce speed</b>'',
      fe_adviceB = PStr ''Exercise caution'',
      fe_adviceOther = PStr ''Use <i>an alternative</i> route'',
      fe_isMajor = PBool False,
      fe_isEnded = PBool False,
      fe_isNew = PBool True,
      fe_isImpactNetwork = PBool True,
      fe_diversions = PStr ''<<b>b>'',
      fe_type = PStr ''Crash'',
      fe_subCategory = PNone,
      fe_duration = PInt 0,
      fe_feature_type = PStr ''Incident'',
      fe_road = PStr ''M1 Pacific Motorway'',
      fe_council_area = PStr ''Hornsby'',
      fe_distance_to_home = PInt 12,
      fe_coordinates = Some [PInt (- 33), PInt 151]\<rparr>"

definition example_refreshed :: location_event where
  "example_refreshed = fst (update_from_feed (example_event ''incident-open'') example_entry)"


definition example_config :: config where
  "example_config =
     \<lparr>conf_scan_interval = None, conf_hazards = Some (PStr ''incident''),
      conf_hazards_state = Some (PStr ''open'')\<rparr>"

section \<open>Facts about strings\<close>

lemmas ATTR_defs =
  ATTR_ATTRIBUTION_def ATTR_TITLE_def ATTR_CATEGORY_def ATTR_EXTERNAL_ID_def
  ATTR_PUBLICATION_DATE_def ATTR_DESCRIPTION_def ATTR_PUBLICTRANSPORT_def ATTR_ADVICEA_def
  ATTR_ADVICEB_def ATTR_ADVICEOTHER_def ATTR_ISMAJOR_def ATTR_ISENDED_def ATTR_ISNEW_def
  ATTR_ISIMPACTNETWORK_def ATTR_DIVERSIONS_def ATTR_TYPE_def ATTR_SUBCATEGORY_def
  ATTR_DURATION_def ATTR_FEATURE_TYPE_def ATTR_ROAD_def ATTR_COUNCIL_def ATTR_PICTURE_def

lemma lower_char_idem: "lower_char (lower_char c) = lower_char c"
  by (auto simp add: lower_char_def less_eq_char_def)

lemma lower_idem: "lower (lower s) = lower s"
  by (simp add: lower_def lower_char_idem)

lemma startswith_both:
  assumes "startswith s p" and "startswith s q"
  shows "prefix p q \<or> prefix q p"
  using assms prefix_same_cases unfolding startswith_def by blast

section \<open>Icon and picture derivation\<close>

lemma icon_incident:
  "startswith (lower (ev_hazard e)) ''incident'' \<Longrightarrow> icon e = ''mdi:alert''"
  by (simp add: icon_def)

lemma picture_incident:
  "startswith (lower (ev_hazard e)) ''incident'' \<Longrightarrow>
   picture e = PStr ''https://www.livetraffic.com/images/icons/hazard/traffic-incident.gif''"
  by (simp add: picture_def)

lemma not_incident:
  assumes "startswith s p" and "\<not> prefix p ''incident''" and "\<not> prefix ''incident'' p"
  shows "\<not> startswith s ''incident''"
  using assms startswith_both by blast

lemma not_fire:
  assumes "startswith s p" and "\<not> prefix p ''fire''" and "\<not> prefix ''fire'' p"
  shows "\<not> startswith s ''fire''"
  using assms startswith_both by blast

lemma not_flood:
  assumes "startswith s p" and "\<not> prefix p ''flood''" and "\<not> prefix ''flood'' p"
  shows "\<not> startswith s ''flood''"
  using assms startswith_both by blast

lemma not_alpine:
  assumes "startswith s p" and "\<not> prefix p ''alpine''" and "\<not> prefix ''alpine'' p"
  shows "\<not> startswith s ''alpine''"
  using assms startswith_both by blast

lemma not_major:
  assumes "startswith s p" and "\<not> prefix p ''major''" and "\<not> prefix ''major'' p"
  shows "\<not> startswith s ''major''"
  using assms startswith_both by blast

lemma table_fire:
  assumes "startswith (lower (ev_hazard e)) ''fire''"
  shows "icon e = ''mdi:fire'' \<and>
    picture e = PStr ''https://www.livetraffic.com/images/icons/hazard/weather-bush-fire.gif''"
proof -
  have "\<not> startswith (lower (ev_hazard e)) ''incident''"
    by (rule not_incident [OF assms]) simp_all
  with assms show ?thesis by (simp add: icon_def picture_def)
qed

lemma table_flood:
  assumes "startswith (lower (ev_hazard e)) ''flood''"
  shows "icon e = ''mdi:home-flood'' \<and>
    picture e = PStr ''https://www.livetraffic.com/images/icons/hazard/weather-flood.gif''"
proof -
  have "\<not> startswith (lower (ev_hazard e)) ''incident''"
    by (rule not_incident [OF assms]) simp_all
  moreover have "\<not> startswith (lower (ev_hazard e)) ''fire''"
    by (rule not_fire [OF assms]) simp_all
  ultimately show ?thesis using assms by (simp add: icon_def picture_def)
qed

lemma table_alpine:
  assumes "startswith (lower (ev_hazard e)) ''alpine''"
  shows "icon e = ''mdi:snowflake-alert'' \<and>
    picture e = PStr ''https://www.livetraffic.com/images/icons/hazard/weather-snow-ice.gif''"
proof -
  have "\<not> startswith (lower (ev_hazard e)) ''incident''"
    by (rule not_incident [OF assms]) simp_all
  moreover have "\<not> startswith (lower (ev_hazard e)) ''fire''"
    by (rule not_fire [OF assms]) simp_all
  moreover have "\<not> startswith (lower (ev_hazard e)) ''flood''"
    by (rule not_flood [OF assms]) simp_all
  ultimately show ?thesis using assms by (simp add: icon_def picture_def)
qed

lemma table_major:
  assumes "startswith (lower (ev_hazard e)) ''major''"
  shows "icon e = ''mdi:party-popper'' \<and>
    picture e = PStr ''https://www.livetraffic.com/images/icons/hazard/major-event.gif''"
proof -
  have "\<not> startswith (lower (ev_hazard e)) ''incident''"
    by (rule not_incident [OF assms]) simp_all
  moreover have "\<not> startswith (lower (ev_hazard e)) ''fire''"
    by (rule not_fire [OF assms]) simp_all
  moreover have "\<not> startswith (lower (ev_hazard e)) ''flood''"
    by (rule not_flood [OF assms]) simp_all
  moreover have "\<not> startswith (lower (ev_hazard e)) ''alpine''"
    by (rule not_alpine [OF assms]) simp_all
  ultimately show ?thesis using assms by (simp add: icon_def picture_def)
qed

lemma table_roadwork:
  assumes "startswith (lower (ev_hazard e)) ''roadwork''"
  shows "icon e = ''mdi:road-variant'' \<and>
    picture e = PStr ''https://www.livetraffic.com/images/icons/hazard/road-work-3.png''"
proof -
  have "\<not> startswith (lower (ev_hazard e)) ''incident''"
    by (rule not_incident [OF assms]) simp_all
  moreover have "\<not> startswith (lower (ev_hazard e)) ''fire''"
    by (rule not_fire [OF assms]) simp_all
  moreover have "\<not> startswith (lower (ev_hazard e)) ''flood''"
    by (rule not_flood [OF assms]) simp_all
  moreover have "\<not> startswith (lower (ev_hazard e)) ''alpine''"
    by (rule not_alpine [OF assms]) simp_all
  moreover have "\<not> startswith (lower (ev_hazard e)) ''major''"
    by (rule not_major [OF assms]) simp_all
  ultimately show ?thesis using assms by (simp add: icon_def picture_def)
qed

lemma table_default:
  assumes "\<forall>(p, ic, url) \<in> set spec_hazard_table. \<not> startswith (lower (ev_hazard e)) p"
  shows "icon e = ''mdi:alarm-light'' \<and> picture e = PNone"
  using assms by (simp add: spec_hazard_table_def icon_def picture_def)

lemma icon_picture_case_insensitive:
  assumes "lower (ev_hazard e') = lower (ev_hazard e)"
  shows "icon e' = icon e \<and> picture e' = picture e"
  using assms by (simp add: icon_def picture_def)

text \<open>
  C4. Icon and picture are functions of the hazard string alone, defined for every string,
  and they read it only through its lowercase form and the six prefixes of the table:
  a string whose lowercase form starts with a prefix of the table gets that row's icon and
  image address; a string that starts with none of them gets the icon \<open>mdi:alarm-light\<close>
  and no picture; two strings with the same lowercase form get the same icon and picture.
\<close>

theorem icon_picture_prefix_match:
  "(\<forall>(p, ic, url) \<in> set spec_hazard_table.
      startswith (lower (ev_hazard e)) p \<longrightarrow> icon e = ic \<and> picture e = PStr url)
   \<and> ((\<forall>(p, ic, url) \<in> set spec_hazard_table. \<not> startswith (lower (ev_hazard e)) p)
        \<longrightarrow> icon e = ''mdi:alarm-light'' \<and> picture e = PNone)
   \<and> (lower (ev_hazard e') = lower (ev_hazard e)
        \<longrightarrow> icon e' = icon e \<and> picture e' = picture e)"
proof (intro conjI)
  show "\<forall>(p, ic, url) \<in> set spec_hazard_table.
      startswith (lower (ev_hazard e)) p \<longrightarrow> icon e = ic \<and> picture e = PStr url"
    using icon_incident [of e] picture_incident [of e] table_fire [of e] table_flood [of e]
      table_alpine [of e] table_major [of e] table_roadwork [of e]
    by (simp add: spec_hazard_table_def)
qed (use table_default icon_picture_case_insensitive in blast)+

lemma ev_hazard_example: "ev_hazard (example_event h) = h"
  by (simp add: example_event_def example_manager_def NswTransportServiceLocationEvent_def
      NswTransportServiceFeedEntityManager_def)

lemma lower_Incident_Open: "lower ''Incident-Open'' = ''incident-open''"
  by code_simp

lemma lower_incident_open: "lower ''incident-open'' = ''incident-open''"
  by code_simp

lemma weather_no_prefix:
  "\<forall>(p, ic, url) \<in> set spec_hazard_table. \<not> startswith (lower ''weather'') p"
  by code_simp

theorem icon_picture_prefix_match_witness:
  "startswith (lower (ev_hazard (example_event ''Incident-Open''))) ''incident''
   \<and> icon (example_event ''Incident-Open'') = ''mdi:alert''
   \<and> picture (example_event ''Incident-Open'') =
       PStr ''https://www.livetraffic.com/images/icons/hazard/traffic-incident.gif''
   \<and> icon (example_event ''incident-open'') = icon (example_event ''Incident-Open'')
   \<and> icon (example_event ''weather'') = ''mdi:alarm-light''
   \<and> picture (example_event ''weather'') = PNone"
  using
    icon_picture_prefix_match
      [of "example_event ''Incident-Open''" "example_event ''incident-open''"]
    icon_picture_prefix_match [of "example_event ''weather''"]
    weather_no_prefix
  by (simp add: ev_hazard_example spec_hazard_table_def lower_Incident_Open
      lower_incident_open startswith_def)

section \<open>The attribute map\<close>

lemma fold_add_attribute:
  "distinct (map fst xs) \<Longrightarrow>
   fold add_attribute xs m k =
     (case map_of (filter (\<lambda>kv. truthy (snd kv) \<or> isinstance_bool (snd kv)) xs) k of
        Some v \<Rightarrow> Some v | None \<Rightarrow> m k)"
proof (induction xs arbitrary: m)
  case Nil
  then show ?case by simp
next
  case (Cons x xs)
  obtain a b where x: "x = (a, b)" by (cases x)
  from Cons.prems have d: "distinct (map fst xs)" and nin: "a \<notin> fst ` set xs"
    by (simp_all add: x)
  have none: "map_of (filter (\<lambda>kv. truthy (snd kv) \<or> isinstance_bool (snd kv)) xs) a = None"
    using nin by (force simp add: map_of_eq_None_iff)
  have "fold add_attribute (x # xs) m k = fold add_attribute xs (add_attribute x m) k"
    by simp
  also have "\<dots> =
      (case map_of (filter (\<lambda>kv. truthy (snd kv) \<or> isinstance_bool (snd kv)) xs) k of
         Some v \<Rightarrow> Some v | None \<Rightarrow> add_attribute x m k)"
    by (rule Cons.IH [OF d])
  finally have eq: "fold add_attribute (x # xs) m k =
      (case map_of (filter (\<lambda>kv. truthy (snd kv) \<or> isinstance_bool (snd kv)) xs) k of
         Some v \<Rightarrow> Some v | None \<Rightarrow> add_attribute x m k)" .
  have step: "add_attribute x m k =
      (if (truthy b \<or> isinstance_bool b) \<and> k = a then Some b else m k)"
    by (simp add: x add_attribute_def)
  show ?case
    unfolding eq step using none by (auto simp add: x split: option.splits)
qed

lemma distinct_attribute_keys: "distinct (map fst (attribute_items e))"
  by (simp add: attribute_items_def ATTR_defs)

lemma attributes_iff:
  "device_state_attributes e k = Some v \<longleftrightarrow>
   (k, v) \<in> set (attribute_items e) \<and> (truthy v \<or> isinstance_bool v)"
proof -
  let ?f = "filter (\<lambda>kv. truthy (snd kv) \<or> isinstance_bool (snd kv)) (attribute_items e)"
  have "distinct (map fst ?f)"
    using distinct_attribute_keys by (rule distinct_map_filter)
  then have "map_of ?f k = Some v \<longleftrightarrow> (k, v) \<in> set ?f"
    by simp
  then show ?thesis
    by (simp add: device_state_attributes_def fold_add_attribute [OF distinct_attribute_keys]
        split: option.splits) auto
qed

lemma attribute_value_unique:
  assumes "(k, v) \<in> set (attribute_items e)" and "(k, w) \<in> set (attribute_items e)"
  shows "v = w"
  using assms distinct_attribute_keys [of e] by (rule_tac eq_key_imp_eq_value)

lemma attributes_omitted:
  assumes "(k, w) \<in> set (attribute_items e)" and "\<not> truthy w" and "\<not> isinstance_bool w"
  shows "device_state_attributes e k = None"
proof (cases "device_state_attributes e k")
  case None
  then show ?thesis .
next
  case (Some v)
  then have "(k, v) \<in> set (attribute_items e)" and "truthy v \<or> isinstance_bool v"
    by (simp_all add: attributes_iff)
  with assms attribute_value_unique [of k v e w] show ?thesis by auto
qed

text \<open>
  C3. The attribute map of an entity in any state holds exactly the items of the fixed
  list whose value is truthy or a boolean, each under its key with its value. So an item
  with a boolean value is in the map whether it is \<open>True\<close> or \<open>False\<close>, and an item whose
  value is falsy and not a boolean (\<open>None\<close>, the empty string, the integer 0) leaves its
  key out of the map.
\<close>

theorem device_state_attributes_exact:
  "(device_state_attributes e k = Some v \<longleftrightarrow>
      (k, v) \<in> set (attribute_items e) \<and> (truthy v \<or> isinstance_bool v))
   \<and> ((k, PBool b) \<in> set (attribute_items e) \<longrightarrow>
        device_state_attributes e k = Some (PBool b))
   \<and> ((k, w) \<in> set (attribute_items e) \<and> \<not> truthy w \<and> \<not> isinstance_bool w \<longrightarrow>
        device_state_attributes e k = None)
   \<and> \<not> truthy PNone \<and> \<not> isinstance_bool PNone
   \<and> \<not> truthy (PStr []) \<and> \<not> isinstance_bool (PStr [])"
  using attributes_iff [of e k v] attributes_iff [of e k "PBool b"] attributes_omitted [of k w e]
  by simp

lemma example_refreshed_items:
  "attribute_items example_refreshed =
     [(''title'', PNone),
      (''featureType'', PStr ''incident-open''),
      (''type'', PStr ''Crash''),
      (''subCategory'', PNone),
      (''road'', PStr ''M1 Pacific Motorway''),
      (''council'', PStr ''Hornsby''),
      (''category'', PStr ''CRASH''),
      (''description'', PStr []),
      (''publication_date'', PObj ''2020-05-01 10:00:00+10:00''),
      (''adviceA'', PStr ''<b>Reduce speed</b>''),
      (''adviceB'', PStr ''Exercise caution''),
      (''diversions'', PStr ''<b>''),
      (''publicTransport'', PStr []),
      (''adviceOther'', PStr ''Use an alternative route''),
      (''isMajor'', PBool False),
      (''isEnded'', PBool False),
      (''isNew'', PBool True),
      (''isImpactNetwork'', PBool True),
      (''duration'', PInt 0),
      (''external_id'', PStr ''7''),
      (''attribution'', PStr ''State of New South Wales (Transport for NSW)''),
      (''entity_picture'',
         PStr ''https://www.livetraffic.com/images/icons/hazard/traffic-incident.gif'')]"
  by code_simp

theorem device_state_attributes_exact_witness:
  "(''isMajor'', PBool False) \<in> set (attribute_items example_refreshed)
   \<and> device_state_attributes example_refreshed ''isMajor'' = Some (PBool False)
   \<and> (''description'', PStr []) \<in> set (attribute_items example_refreshed)
   \<and> device_state_attributes example_refreshed ''description'' = None
   \<and> (''subCategory'', PNone) \<in> set (attribute_items example_refreshed)
   \<and> device_state_attributes example_refreshed ''subCategory'' = None
   \<and> device_state_attributes example_refreshed ''road'' = Some (PStr ''M1 Pacific Motorway'')"
  using
    device_state_attributes_exact [of example_refreshed "''isMajor''" "PBool False" False "PNone"]
    device_state_attributes_exact [of example_refreshed "''description''" "PNone" False "PStr []"]
    device_state_attributes_exact [of example_refreshed "''subCategory''" "PNone" False "PNone"]
    device_state_attributes_exact
      [of example_refreshed "''road''" "PStr ''M1 Pacific Motorway''" False "PNone"]
  by (simp add: example_refreshed_items)

section \<open>What a refresh and the callbacks leave alone\<close>

lemma update_from_feed_frame:
  "ev_title (fst (update_from_feed e fe)) = ev_title e"
  "ev_hazard (fst (update_from_feed e fe)) = ev_hazard e"
  "ev_name (fst (update_from_feed e fe)) = fe_title fe"
  by (simp_all add: update_from_feed_def Let_def split: sum.splits)

lemma async_update_frame:
  "ev_title (fst (async_update m e)) = ev_title e"
  "ev_hazard (fst (async_update m e)) = ev_hazard e"
  by (simp_all add: async_update_def update_from_feed_frame split: option.splits)

lemma entity_step_frame:
  "ev_title (snd (entity_step ev s)) = ev_title (snd s)"
  "ev_hazard (snd (entity_step ev s)) = ev_hazard (snd s)"
  by (cases ev; cases s;
      simp add: async_update_frame async_added_to_hass_def async_dispatcher_connect_def)+

lemma entity_run_frame:
  "ev_title (snd (entity_run evs s)) = ev_title (snd s)
   \<and> ev_hazard (snd (entity_run evs s)) = ev_hazard (snd s)"
  unfolding entity_run_def
  by (induction evs arbitrary: s) (simp_all add: entity_step_frame)

lemma new_event_fields:
  "ev_title (NswTransportServiceLocationEvent m x) = PNone"
  "ev_hazard (NswTransportServiceLocationEvent m x) = mgr_hazard m"
  by (simp_all add: NswTransportServiceLocationEvent_def)

lemma title_item: "(ATTR_TITLE, ev_title e) \<in> set (attribute_items e)"
  by (simp add: attribute_items_def)

lemma feature_type_item: "(ATTR_FEATURE_TYPE, PStr (ev_hazard e)) \<in> set (attribute_items e)"
  by (simp add: attribute_items_def)

lemma feature_type_attribute:
  "device_state_attributes e ATTR_FEATURE_TYPE =
     (if ev_hazard e = [] then None else Some (PStr (ev_hazard e)))"
proof (cases "ev_hazard e = []")
  case True
  then show ?thesis
    using attributes_omitted [OF feature_type_item, of e] by simp
next
  case False
  then show ?thesis
    using attributes_iff [of e ATTR_FEATURE_TYPE "PStr (ev_hazard e)"] feature_type_item [of e]
    by simp
qed

text \<open>
  C9. Start from a new entity and let any sequence of refreshes, hooks and signals
  happen, against any managers and any feed entries, with or without an exception in a
  refresh: the field \<open>_title\<close> is still \<open>None\<close> and the attribute map has no \<open>title\<close>
  key. A refresh puts the title of the feed entry into the name and leaves \<open>_title\<close> as it
  was.
\<close>

theorem title_never_in_attributes:
  "ev_title (snd (entity_run evs (h, NswTransportServiceLocationEvent m x))) = PNone
   \<and> device_state_attributes (snd (entity_run evs (h, NswTransportServiceLocationEvent m x)))
        ATTR_TITLE = None
   \<and> ev_name (fst (update_from_feed e fe)) = fe_title fe
   \<and> ev_title (fst (update_from_feed e fe)) = ev_title e"
proof -
  let ?e = "snd (entity_run evs (h, NswTransportServiceLocationEvent m x))"
  have t: "ev_title ?e = PNone"
    using entity_run_frame [of evs "(h, NswTransportServiceLocationEvent m x)"]
    by (simp add: new_event_fields)
  have "device_state_attributes ?e ATTR_TITLE = None"
    using attributes_omitted [OF title_item, of ?e] by (simp add: t)
  with t show ?thesis
    by (simp add: update_from_feed_frame)
qed

text \<open>
  C10. The hazard of an entity is the hazard of the manager that made it, after any
  sequence of refreshes, hooks and signals. So two entities of one manager, whatever
  their external ids and whatever has happened to them, have the same icon, the same
  picture and the same \<open>featureType\<close> attribute, which are those of the new entity.
\<close>

theorem hazard_constant:
  "ev_hazard (snd (entity_run evs (h, NswTransportServiceLocationEvent m x))) = mgr_hazard m
   \<and> icon (snd (entity_run evs (h, NswTransportServiceLocationEvent m x))) =
       icon (snd (entity_run evs' (h', NswTransportServiceLocationEvent m x')))
   \<and> picture (snd (entity_run evs (h, NswTransportServiceLocationEvent m x))) =
       picture (snd (entity_run evs' (h', NswTransportServiceLocationEvent m x')))
   \<and> device_state_attributes (snd (entity_run evs (h, NswTransportServiceLocationEvent m x)))
        ATTR_FEATURE_TYPE =
       device_state_attributes (snd (entity_run evs' (h', NswTransportServiceLocationEvent m x')))
        ATTR_FEATURE_TYPE
   \<and> icon (snd (entity_run evs (h, NswTransportServiceLocationEvent m x))) =
       icon (NswTransportServiceLocationEvent m x)
   \<and> picture (snd (entity_run evs (h, NswTransportServiceLocationEvent m x))) =
       picture (NswTransportServiceLocationEvent m x)
   \<and> device_state_attributes (snd (entity_run evs (h, NswTransportServiceLocationEvent m x)))
        ATTR_FEATURE_TYPE =
       (if mgr_hazard m = [] then None else Some (PStr (mgr_hazard m)))"
proof -
  have a: "ev_hazard (snd (entity_run evs (h, NswTransportServiceLocationEvent m x))) =
      mgr_hazard m"
    using entity_run_frame [of evs "(h, NswTransportServiceLocationEvent m x)"]
    by (simp add: new_event_fields)
  have b: "ev_hazard (snd (entity_run evs' (h', NswTransportServiceLocationEvent m x'))) =
      mgr_hazard m"
    using entity_run_frame [of evs' "(h', NswTransportServiceLocationEvent m x')"]
    by (simp add: new_event_fields)
  show ?thesis
    by (simp add: a b icon_def picture_def feature_type_attribute new_event_fields)
qed

section \<open>A refresh that finds no entry\<close>

text \<open>
  C5. When the manager has no entry for the external id of the entity, the refresh
  returns the entity as it was and raises nothing; it makes no call to the host, so the
  host, with its tasks and its connections, is as it was and no removal is asked for.
\<close>

theorem async_update_no_entry:
  assumes "get_entry m (ev_external_id e) = None"
  shows "async_update m e = (e, None) \<and> entity_step (Refresh m) (h, e) = (h, e)"
  using assms by (simp add: async_update_def)

theorem async_update_no_entry_witness:
  "get_entry (example_manager ''incident-open'') (ev_external_id example_refreshed) = None
   \<and> async_update (example_manager ''incident-open'') example_refreshed =
       (example_refreshed, None)
   \<and> entity_step (Refresh (example_manager ''incident-open'')) (example_hass, example_refreshed) =
       (example_hass, example_refreshed)"
proof -
  have g: "get_entry (example_manager ''incident-open'') (ev_external_id example_refreshed) =
      None"
    by (simp add: get_entry_def example_manager_def NswTransportServiceFeedEntityManager_def)
  show ?thesis
    using g async_update_no_entry [OF g, of example_hass] by simp
qed

section \<open>Handles\<close>



lemma async_init_eq:
  "async_init h m =
     (h\<lparr>hass_time_listeners := hass_time_listeners h @
            [(hass_next_handle h, Update_job, mgr_scan_interval m)],
         hass_next_handle := Suc (hass_next_handle h)\<rparr>,
      m\<lparr>mgr_track_time_remove_callback := Some (hass_next_handle h)\<rparr>)"
  by (simp add: async_init_def async_track_time_interval_def)

section \<open>The delete signal and the detach hook\<close>




section \<open>Starting and stopping the timer\<close>

text \<open>
  C8. \<open>async_init\<close> adds one timer to the timers of the host and changes none of the
  others: the new timer runs the job \<open>update\<close>, which calls the manager's update, at the
  scan interval of the manager, and the manager keeps its handle. A second
  \<open>async_init\<close> adds a second such timer under the next handle and the manager then
  keeps the second handle only. The scan interval of a manager set up from a
  configuration without \<open>scan_interval\<close> is five minutes.
\<close>

theorem async_init_schedules_one_timer:
  assumes "async_init h m = (h1, m1)" and "async_init h1 m1 = (h2, m2)"
  shows "hass_time_listeners h1 =
      hass_time_listeners h @ [(hass_next_handle h, Update_job, mgr_scan_interval m)]
    \<and> mgr_track_time_remove_callback m1 = Some (hass_next_handle h)
    \<and> run_job Update_job feed (h', m') = (h', manager_async_update feed m')
    \<and> hass_time_listeners h2 =
      hass_time_listeners h @
        [(hass_next_handle h, Update_job, mgr_scan_interval m),
         (Suc (hass_next_handle h), Update_job, mgr_scan_interval m)]
    \<and> mgr_track_time_remove_callback m2 = Some (Suc (hass_next_handle h))
    \<and> length (update_timers h1) = Suc (length (update_timers h))
    \<and> length (update_timers h2) = Suc (Suc (length (update_timers h)))
    \<and> (conf_scan_interval c = None \<longrightarrow> async_setup_platform feed h0 c = Inr (h3, m3) \<longrightarrow>
         mgr_scan_interval m3 = 5 * 60 \<and> mgr_track_time_remove_callback m3 = None)"
proof -
  from assms(1) have h1: "h1 = h\<lparr>hass_time_listeners := hass_time_listeners h @
            [(hass_next_handle h, Update_job, mgr_scan_interval m)],
         hass_next_handle := Suc (hass_next_handle h)\<rparr>"
    and m1: "m1 = m\<lparr>mgr_track_time_remove_callback := Some (hass_next_handle h)\<rparr>"
    by (simp_all add: async_init_eq)
  from assms(2) have h2: "h2 = h1\<lparr>hass_time_listeners := hass_time_listeners h1 @
            [(hass_next_handle h1, Update_job, mgr_scan_interval m1)],
         hass_next_handle := Suc (hass_next_handle h1)\<rparr>"
    and m2: "m2 = m1\<lparr>mgr_track_time_remove_callback := Some (hass_next_handle h1)\<rparr>"
    by (simp_all add: async_init_eq)
  have dflt: "conf_scan_interval c = None \<longrightarrow> async_setup_platform feed h0 c = Inr (h3, m3) \<longrightarrow>
         mgr_scan_interval m3 = 5 * 60 \<and> mgr_track_time_remove_callback m3 = None"
    by (auto simp add: async_setup_platform_def Let_def SCAN_INTERVAL_def minutes_def
        NswTransportServiceFeedEntityManager_def split: sum.splits)
  show ?thesis
    using dflt by (simp add: h1 m1 h2 m2 update_timers_def)
qed


lemma lower_open: "lower ''open'' = ''open''"
  by code_simp

lemma lower_incident: "lower ''incident'' = ''incident''"
  by code_simp

lemma example_setup_hazard: "setup_hazard example_config = Inr ''incident-open''"
  by (simp add: setup_hazard_def example_config_def config_get_def py_lower_def lower_open
      lower_incident)

lemma example_setup:
  "async_setup_platform (\<lambda>x. None) example_hass example_config =
     Inr (example_hass
            \<lparr>hass_bus := [(EVENT_HOMEASSISTANT_START, Start_feed_manager),
                          (EVENT_HOMEASSISTANT_STOP, Stop_feed_manager)],
             hass_tasks := [Manager_async_update]\<rparr>,
          example_manager ''incident-open'')"
  by (simp add: async_setup_platform_def example_setup_hazard Let_def example_manager_def
      async_listen_once_def async_create_task_def)
    (simp add: example_config_def example_hass_def)

theorem async_init_schedules_one_timer_witness:
  "hass_time_listeners (fst (async_init example_hass (example_manager ''incident-open''))) =
     [(0, Update_job, 300)]
   \<and> mgr_track_time_remove_callback
        (snd (async_init example_hass (example_manager ''incident-open''))) = Some 0
   \<and> hass_time_listeners
        (fst (async_init (fst (async_init example_hass (example_manager ''incident-open'')))
                (snd (async_init example_hass (example_manager ''incident-open''))))) =
     [(0, Update_job, 300), (1, Update_job, 300)]
   \<and> conf_scan_interval example_config = None
   \<and> mgr_scan_interval (example_manager ''incident-open'') = 300"
proof -
  let ?s1 = "async_init example_hass (example_manager ''incident-open'')"
  let ?s2 = "async_init (fst ?s1) (snd ?s1)"
  have a: "async_init example_hass (example_manager ''incident-open'') = (fst ?s1, snd ?s1)"
    by simp
  have b: "async_init (fst ?s1) (snd ?s1) = (fst ?s2, snd ?s2)"
    by simp
  have c: "conf_scan_interval example_config = None"
    by (simp add: example_config_def)
  have n: "hass_next_handle example_hass = 0" "hass_time_listeners example_hass = []"
    by (simp_all add: example_hass_def)
  have i: "mgr_scan_interval (example_manager ''incident-open'') = 300"
    by (simp add: example_manager_def NswTransportServiceFeedEntityManager_def
        SCAN_INTERVAL_def minutes_def)
  show ?thesis
    using async_init_schedules_one_timer
      [OF a b, of "\<lambda>x. None" example_hass "example_manager ''incident-open''" example_config
        example_hass _ "example_manager ''incident-open''"]
      c example_setup
    by (simp add: n i)
qed





section \<open>The hazard key\<close>

lemma setup_hazard_strings:
  assumes "conf_hazards c = Some (PStr hz)" and "conf_hazards_state c = Some (PStr st)"
  shows "setup_hazard c = Inr (spec_hazard_key hz st)"
  using assms by (simp add: setup_hazard_def spec_hazard_key_def config_get_def py_lower_def)

lemma In_Inr: "In container v = Inr x \<longleftrightarrow> x = v \<and> v \<in> set container"
  by (auto simp add: In_def)

lemma PLATFORM_SCHEMA_accepts:
  assumes "PLATFORM_SCHEMA c = Inr c'"
  shows "\<exists>hz st. conf_hazards c' = Some (PStr hz) \<and> conf_hazards_state c' = Some (PStr st)
    \<and> PStr hz \<in> set VALID_HAZARDS \<and> PStr st \<in> set VALID_HAZARDS_STATE"
  using assms
  by (auto simp add: PLATFORM_SCHEMA_def In_Inr Coerce_str_def split: sum.splits)

lemma Coerce_str_state:
  assumes "v \<in> set VALID_HAZARDS_STATE"
  shows "Coerce_str v \<in> set VALID_HAZARDS_STATE"
  using assms by (auto simp add: VALID_HAZARDS_STATE_def Coerce_str_def)

lemma Coerce_str_hazards:
  assumes "w \<in> set VALID_HAZARDS"
  shows "Coerce_str w \<in> set VALID_HAZARDS"
  using assms by (auto simp add: VALID_HAZARDS_def Coerce_str_def)

lemma PLATFORM_SCHEMA_valid:
  assumes "v \<in> set VALID_HAZARDS_STATE" and "w \<in> set VALID_HAZARDS"
  shows "PLATFORM_SCHEMA (c\<lparr>conf_hazards := Some w, conf_hazards_state := Some v\<rparr>) =
    Inr (c\<lparr>conf_hazards := Some (PStr (py_str w)), conf_hazards_state := Some (PStr (py_str v))\<rparr>)"
  using Coerce_str_state [OF assms(1)] Coerce_str_hazards [OF assms(2)]
  by (simp add: PLATFORM_SCHEMA_def In_def) (simp add: Coerce_str_def)

lemma async_setup_platform_key:
  assumes "setup_hazard c = Inr key"
  shows "async_setup_platform feed h c =
    Inr (async_create_task
           (async_listen_once
              (async_listen_once h EVENT_HOMEASSISTANT_START Start_feed_manager)
              EVENT_HOMEASSISTANT_STOP Stop_feed_manager)
           Manager_async_update,
         NswTransportServiceFeedEntityManager feed
           (case conf_scan_interval c of None \<Rightarrow> SCAN_INTERVAL | Some i \<Rightarrow> i) key)"
  using assms by (simp add: async_setup_platform_def Let_def)

lemma manager_hazard_fields:
  "mgr_feed_manager_hazard (NswTransportServiceFeedEntityManager feed si key) = key"
  "mgr_hazard (NswTransportServiceFeedEntityManager feed si key) = key"
  by (simp_all add: NswTransportServiceFeedEntityManager_def)

lemma async_setup_platform_strings:
  assumes "conf_hazards c = Some (PStr hz)" and "conf_hazards_state c = Some (PStr st)"
  shows "\<exists>h3 m3. async_setup_platform feed h c = Inr (h3, m3)
    \<and> mgr_feed_manager_hazard m3 = spec_hazard_key hz st
    \<and> mgr_hazard m3 = spec_hazard_key hz st"
  using async_setup_platform_key [OF setup_hazard_strings [OF assms], of feed h]
  by (simp add: manager_hazard_fields)

text \<open>
  C1. The hazard key that \<open>async_setup_platform\<close> gives to the manager, which hands it
  to the adapter and keeps it, is the key of the rule: for a configuration whose two
  hazard options are strings the setup does not raise, and the key is the lowercased
  hazard alone when the lowercased state is \<open>none\<close>, and the lowercased hazard, a hyphen
  and the lowercased state otherwise. Every configuration that the schema lets through
  has strings there, so the rule holds for it; and each of the six listed state values,
  with a valid hazard, is let through, \<open>None\<close> as the string \<open>None\<close>, and gets the key of
  the rule.
\<close>

theorem hazard_key_rule:
  "(conf_hazards c = Some (PStr hz) \<and> conf_hazards_state c = Some (PStr st) \<longrightarrow>
      setup_hazard c = Inr (spec_hazard_key hz st)
      \<and> (\<exists>h3 m3. async_setup_platform feed h c = Inr (h3, m3)
            \<and> mgr_feed_manager_hazard m3 = spec_hazard_key hz st
            \<and> mgr_hazard m3 = spec_hazard_key hz st))
   \<and> (PLATFORM_SCHEMA c0 = Inr c' \<longrightarrow>
        (\<exists>hz' st' h3 m3.
           conf_hazards c' = Some (PStr hz') \<and> conf_hazards_state c' = Some (PStr st')
           \<and> PStr st' \<in> set VALID_HAZARDS_STATE
           \<and> setup_hazard c' = Inr (spec_hazard_key hz' st')
           \<and> async_setup_platform feed h c' = Inr (h3, m3)
           \<and> mgr_feed_manager_hazard m3 = spec_hazard_key hz' st'
           \<and> mgr_hazard m3 = spec_hazard_key hz' st'))
   \<and> (v \<in> set VALID_HAZARDS_STATE \<and> w \<in> set VALID_HAZARDS \<longrightarrow>
        (\<exists>c'' h3 m3.
           PLATFORM_SCHEMA (c0\<lparr>conf_hazards := Some w, conf_hazards_state := Some v\<rparr>) =
             Inr c''
           \<and> setup_hazard c'' = Inr (spec_hazard_key (py_str w) (py_str v))
           \<and> async_setup_platform feed h c'' = Inr (h3, m3)
           \<and> mgr_feed_manager_hazard m3 = spec_hazard_key (py_str w) (py_str v)
           \<and> mgr_hazard m3 = spec_hazard_key (py_str w) (py_str v)))"
proof (intro conjI impI)
  assume a: "conf_hazards c = Some (PStr hz) \<and> conf_hazards_state c = Some (PStr st)"
  then show "setup_hazard c = Inr (spec_hazard_key hz st)"
    by (simp add: setup_hazard_strings)
  from a show "\<exists>h3 m3. async_setup_platform feed h c = Inr (h3, m3)
      \<and> mgr_feed_manager_hazard m3 = spec_hazard_key hz st
      \<and> mgr_hazard m3 = spec_hazard_key hz st"
    by (simp add: async_setup_platform_strings)
next
  assume "PLATFORM_SCHEMA c0 = Inr c'"
  from PLATFORM_SCHEMA_accepts [OF this] obtain hz' st'
    where a: "conf_hazards c' = Some (PStr hz')" "conf_hazards_state c' = Some (PStr st')"
      and b: "PStr st' \<in> set VALID_HAZARDS_STATE"
    by blast
  from a have k: "setup_hazard c' = Inr (spec_hazard_key hz' st')"
    by (rule setup_hazard_strings)
  from async_setup_platform_strings [OF a, of feed h] obtain h3 m3
    where s: "async_setup_platform feed h c' = Inr (h3, m3)"
      "mgr_feed_manager_hazard m3 = spec_hazard_key hz' st'"
      "mgr_hazard m3 = spec_hazard_key hz' st'"
    by blast
  from a b k s show "\<exists>hz' st' h3 m3.
      conf_hazards c' = Some (PStr hz') \<and> conf_hazards_state c' = Some (PStr st')
      \<and> PStr st' \<in> set VALID_HAZARDS_STATE
      \<and> setup_hazard c' = Inr (spec_hazard_key hz' st')
      \<and> async_setup_platform feed h c' = Inr (h3, m3)
      \<and> mgr_feed_manager_hazard m3 = spec_hazard_key hz' st'
      \<and> mgr_hazard m3 = spec_hazard_key hz' st'"
    by blast
next
  let ?c = "c0\<lparr>conf_hazards := Some (PStr (py_str w)),
      conf_hazards_state := Some (PStr (py_str v))\<rparr>"
  assume "v \<in> set VALID_HAZARDS_STATE \<and> w \<in> set VALID_HAZARDS"
  then have p: "PLATFORM_SCHEMA (c0\<lparr>conf_hazards := Some w, conf_hazards_state := Some v\<rparr>) =
      Inr ?c"
    by (simp add: PLATFORM_SCHEMA_valid)
  have a: "conf_hazards ?c = Some (PStr (py_str w))"
    "conf_hazards_state ?c = Some (PStr (py_str v))"
    by simp_all
  have k: "setup_hazard ?c = Inr (spec_hazard_key (py_str w) (py_str v))"
    using a by (rule setup_hazard_strings)
  from async_setup_platform_strings [OF a, of feed h] obtain h3 m3
    where s: "async_setup_platform feed h ?c = Inr (h3, m3)"
      "mgr_feed_manager_hazard m3 = spec_hazard_key (py_str w) (py_str v)"
      "mgr_hazard m3 = spec_hazard_key (py_str w) (py_str v)"
    by blast
  from p k s show "\<exists>c'' h3 m3.
      PLATFORM_SCHEMA (c0\<lparr>conf_hazards := Some w, conf_hazards_state := Some v\<rparr>) = Inr c''
      \<and> setup_hazard c'' = Inr (spec_hazard_key (py_str w) (py_str v))
      \<and> async_setup_platform feed h c'' = Inr (h3, m3)
      \<and> mgr_feed_manager_hazard m3 = spec_hazard_key (py_str w) (py_str v)
      \<and> mgr_hazard m3 = spec_hazard_key (py_str w) (py_str v)"
    by blast
qed

lemma lower_None: "lower ''None'' = ''none''"
  by code_simp

lemma lower_fire: "lower ''fire'' = ''fire''"
  by code_simp

lemma lower_Fire: "lower ''Fire'' = ''fire''"
  by code_simp

lemma lower_Open: "lower ''Open'' = ''open''"
  by code_simp

lemma lower_Incident: "lower ''Incident'' = ''incident''"
  by code_simp

theorem hazard_key_rule_witness:
  "setup_hazard
     \<lparr>conf_scan_interval = None, conf_hazards = Some (PStr ''Incident''),
      conf_hazards_state = Some (PStr ''Open'')\<rparr> = Inr ''incident-open''
   \<and> setup_hazard
     \<lparr>conf_scan_interval = None, conf_hazards = Some (PStr ''Fire''),
      conf_hazards_state = Some (PStr ''None'')\<rparr> = Inr ''fire''
   \<and> PNone \<in> set VALID_HAZARDS_STATE \<and> PStr ''fire'' \<in> set VALID_HAZARDS
   \<and> PLATFORM_SCHEMA (example_config\<lparr>conf_hazards := Some (PStr ''fire''),
        conf_hazards_state := Some PNone\<rparr>) =
      Inr (example_config\<lparr>conf_hazards := Some (PStr ''fire''),
        conf_hazards_state := Some (PStr ''None'')\<rparr>)
   \<and> setup_hazard (example_config\<lparr>conf_hazards := Some (PStr ''fire''),
        conf_hazards_state := Some (PStr ''None'')\<rparr>) = Inr ''fire''
   \<and> PStr [] \<in> set VALID_HAZARDS_STATE
   \<and> setup_hazard (example_config\<lparr>conf_hazards := Some (PStr ''fire''),
        conf_hazards_state := Some (PStr [])\<rparr>) = Inr ''fire-''
   \<and> conf_hazards example_config = Some (PStr ''incident'')
   \<and> conf_hazards_state example_config = Some (PStr ''open'')
   \<and> async_setup_platform (\<lambda>x. None) example_hass example_config =
       Inr (example_hass
              \<lparr>hass_bus := [(EVENT_HOMEASSISTANT_START, Start_feed_manager),
                            (EVENT_HOMEASSISTANT_STOP, Stop_feed_manager)],
               hass_tasks := [Manager_async_update]\<rparr>,
            example_manager ''incident-open'')
   \<and> mgr_feed_manager_hazard (example_manager ''incident-open'') = ''incident-open''
   \<and> mgr_hazard (example_manager ''incident-open'') = ''incident-open''"
proof -
  have a: "PNone \<in> set VALID_HAZARDS_STATE" "PStr [] \<in> set VALID_HAZARDS_STATE"
    by (simp_all add: VALID_HAZARDS_STATE_def)
  have b: "PStr ''fire'' \<in> set VALID_HAZARDS"
    by (simp add: VALID_HAZARDS_def)
  have s: "PLATFORM_SCHEMA (example_config\<lparr>conf_hazards := Some (PStr ''fire''),
        conf_hazards_state := Some PNone\<rparr>) =
      Inr (example_config\<lparr>conf_hazards := Some (PStr ''fire''),
        conf_hazards_state := Some (PStr ''None'')\<rparr>)"
    using PLATFORM_SCHEMA_valid [OF a(1) b] by simp
  have e: "conf_hazards example_config = Some (PStr ''incident'')"
    "conf_hazards_state example_config = Some (PStr ''open'')"
    by (simp_all add: example_config_def)
  have k: "spec_hazard_key ''incident'' ''open'' = ''incident-open''"
    by (simp add: spec_hazard_key_def lower_open lower_incident)
  have m: "mgr_feed_manager_hazard (example_manager ''incident-open'') = ''incident-open''
      \<and> mgr_hazard (example_manager ''incident-open'') = ''incident-open''"
    using e k example_setup
      hazard_key_rule [of example_config "''incident''" "''open''" "\<lambda>x. None" example_hass]
    by simp
  show ?thesis
    using a b s e m example_setup
      hazard_key_rule
        [of "\<lparr>conf_scan_interval = None, conf_hazards = Some (PStr ''Incident''),
              conf_hazards_state = Some (PStr ''Open'')\<rparr>" "''Incident''" "''Open''"]
      hazard_key_rule
        [of "\<lparr>conf_scan_interval = None, conf_hazards = Some (PStr ''Fire''),
              conf_hazards_state = Some (PStr ''None'')\<rparr>" "''Fire''" "''None''"
            _ _ example_config _ PNone "PStr ''fire''"]
      hazard_key_rule
        [of "example_config\<lparr>conf_hazards := Some (PStr ''fire''),
              conf_hazards_state := Some (PStr [])\<rparr>" "''fire''" "[]"]
    by (simp add: spec_hazard_key_def lower_None lower_fire lower_Fire lower_Open
        lower_Incident lower_def [of "[]"])
qed

section \<open>Markup stripping\<close>

lemma match_tag_other:
  assumes "c \<noteq> CHR ''<''"
  shows "match_tag c s = None"
  using assms by (cases s) simp_all

lemma re_sub_tags_text:
  assumes "CHR ''<'' \<notin> set t"
  shows "re_sub_tags (t @ s) = t @ re_sub_tags s"
  using assms
proof (induction t)
  case Nil
  then show ?case by simp
next
  case (Cons c t)
  then have "match_tag c (t @ s) = None"
    by (intro match_tag_other) auto
  with Cons show ?case by simp
qed

lemma tag_end_body:
  assumes "CHR ''<'' \<notin> set r" and "CHR ''>'' \<notin> set r"
  shows "tag_end (r @ CHR ''>'' # s) = Some (Suc (length r))"
  using assms by (induction r) auto

lemma re_sub_tags_tag:
  assumes "well_formed (Tag b)"
  shows "re_sub_tags (render (Tag b) @ s) = re_sub_tags s"
proof (cases b)
  case Nil
  with assms show ?thesis by simp
next
  case (Cons c r)
  with assms have c: "c \<noteq> CHR ''<''" and r: "CHR ''<'' \<notin> set r" "CHR ''>'' \<notin> set r"
    by simp_all
  have "match_tag CHR ''<'' (c # r @ CHR ''>'' # s) = Some (Suc (Suc (length r)))"
    using c by (simp add: tag_end_body [OF r])
  then show ?thesis
    by (simp add: Cons)
qed

lemma re_sub_tags_piece:
  assumes "well_formed p"
  shows "re_sub_tags (render p @ s) = plain p @ re_sub_tags s"
proof (cases p)
  case (Text t)
  with assms show ?thesis by (simp add: re_sub_tags_text)
next
  case (Tag b)
  with assms show ?thesis using re_sub_tags_tag [of b s] by simp
qed

lemma re_sub_tags_pieces:
  assumes "list_all well_formed ps"
  shows "re_sub_tags (concat (map render ps)) = concat (map plain ps)"
  using assms by (induction ps) (simp_all add: re_sub_tags_piece)

lemma has_tag_less: "has_tag s \<Longrightarrow> CHR ''<'' \<in> set s"
proof (induction s)
  case Nil
  then show ?case by simp
next
  case (Cons c s)
  then show ?case
    by (cases s) (auto split: if_splits)
qed

lemma plain_no_less:
  assumes "list_all well_formed ps"
  shows "CHR ''<'' \<notin> set (concat (map plain ps))"
  using assms
proof (induction ps)
  case Nil
  then show ?case by simp
next
  case (Cons p ps)
  then show ?case by (cases p) simp_all
qed

lemma update_from_feed_strings:
  assumes "fe_otherAdvice fe = PStr a" and "fe_adviceOther fe = PStr b"
    and "fe_diversions fe = PStr d" and "fe_coordinates fe = Some (la # lo # rest)"
  shows "update_from_feed e fe =
    (e\<lparr>ev_attribution := fe_attribution fe,
       ev_name := fe_title fe,
       ev_category := fe_category fe,
       ev_external_id := fe_external_id fe,
       ev_publication_date := fe_publication_date fe,
       ev_description := fe_description fe,
       ev_otherAdvice := Some (PStr (re_sub_tags a)),
       ev_publicTransport := fe_publicTransport fe,
       ev_adviceA := fe_adviceA fe,
       ev_adviceB := fe_adviceB fe,
       ev_adviceOther := PStr (re_sub_tags b),
       ev_isMajor := fe_isMajor fe,
       ev_isEnded := fe_isEnded fe,
       ev_isNew := fe_isNew fe,
       ev_isImpactNetwork := fe_isImpactNetwork fe,
       ev_diversions := PStr (re_sub_tags d),
       ev_type := fe_type fe,
       ev_subCategory := fe_subCategory fe,
       ev_duration := fe_duration fe,
       ev_feature_type := Some (fe_feature_type fe),
       ev_road := fe_road fe,
       ev_council_area := fe_council_area fe,
       ev_picture := picture e,
       ev_distance := fe_distance_to_home fe,
       ev_latitude := la,
       ev_longitude := lo\<rparr>, None)"
  using assms
  by (simp add: update_from_feed_def re_sub_def subscript_def Let_def picture_def)

text \<open>
  C2 as the specification has it fails: the refresh of the example entry leaves a tag in
  the diversions, because the text \<open><<b>b>\<close> has a tag inside a \<open><\<close> that opens none
  and one pass removes the inner tag only, and it leaves the tags of \<open>adviceA\<close> alone,
  because that field is copied as it is.
\<close>

theorem refresh_leaves_tags:
  "fe_diversions example_entry = PStr ''<<b>b>''
   \<and> ev_diversions example_refreshed = PStr ''<b>''
   \<and> has_tag ''<b>''
   \<and> fe_adviceA example_entry = PStr ''<b>Reduce speed</b>''
   \<and> ev_adviceA example_refreshed = PStr ''<b>Reduce speed</b>''
   \<and> has_tag ''<b>Reduce speed</b>''"
  by (simp add: example_refreshed_def example_entry_def update_from_feed_def re_sub_def
      subscript_def Let_def)

text \<open>
  C2, amended. A refresh of an entry whose three stripped fields are strings, and whose
  coordinates have two items, raises nothing. It stores \<open>otherAdvice\<close>, \<open>adviceOther\<close>
  and \<open>diversions\<close> after one pass of the substitution over each and copies every other
  field as it is, \<open>adviceA\<close>, \<open>adviceB\<close> and the description among them. On text made
  of plain pieces and tags the pass gives the plain pieces alone, in which no tag is left.
\<close>

theorem refresh_strips_three_fields:
  assumes "fe_otherAdvice fe = PStr a" and "fe_adviceOther fe = PStr b"
    and "fe_diversions fe = PStr d" and "fe_coordinates fe = Some (la # lo # rest)"
  shows "snd (update_from_feed e fe) = None
    \<and> ev_otherAdvice (fst (update_from_feed e fe)) = Some (PStr (re_sub_tags a))
    \<and> ev_adviceOther (fst (update_from_feed e fe)) = PStr (re_sub_tags b)
    \<and> ev_diversions (fst (update_from_feed e fe)) = PStr (re_sub_tags d)
    \<and> ev_adviceA (fst (update_from_feed e fe)) = fe_adviceA fe
    \<and> ev_adviceB (fst (update_from_feed e fe)) = fe_adviceB fe
    \<and> ev_description (fst (update_from_feed e fe)) = fe_description fe
    \<and> ev_publicTransport (fst (update_from_feed e fe)) = fe_publicTransport fe
    \<and> ev_attribution (fst (update_from_feed e fe)) = fe_attribution fe
    \<and> ev_name (fst (update_from_feed e fe)) = fe_title fe
    \<and> ev_category (fst (update_from_feed e fe)) = fe_category fe
    \<and> ev_external_id (fst (update_from_feed e fe)) = fe_external_id fe
    \<and> ev_publication_date (fst (update_from_feed e fe)) = fe_publication_date fe
    \<and> ev_isMajor (fst (update_from_feed e fe)) = fe_isMajor fe
    \<and> ev_isEnded (fst (update_from_feed e fe)) = fe_isEnded fe
    \<and> ev_isNew (fst (update_from_feed e fe)) = fe_isNew fe
    \<and> ev_isImpactNetwork (fst (update_from_feed e fe)) = fe_isImpactNetwork fe
    \<and> ev_type (fst (update_from_feed e fe)) = fe_type fe
    \<and> ev_subCategory (fst (update_from_feed e fe)) = fe_subCategory fe
    \<and> ev_duration (fst (update_from_feed e fe)) = fe_duration fe
    \<and> ev_feature_type (fst (update_from_feed e fe)) = Some (fe_feature_type fe)
    \<and> ev_road (fst (update_from_feed e fe)) = fe_road fe
    \<and> ev_council_area (fst (update_from_feed e fe)) = fe_council_area fe
    \<and> ev_distance (fst (update_from_feed e fe)) = fe_distance_to_home fe
    \<and> ev_latitude (fst (update_from_feed e fe)) = la
    \<and> ev_longitude (fst (update_from_feed e fe)) = lo
    \<and> (list_all well_formed ps \<longrightarrow>
         re_sub_tags (concat (map render ps)) = concat (map plain ps)
         \<and> \<not> has_tag (concat (map plain ps)))"
proof -
  have "list_all well_formed ps \<longrightarrow>
         re_sub_tags (concat (map render ps)) = concat (map plain ps)
         \<and> \<not> has_tag (concat (map plain ps))"
    using re_sub_tags_pieces [of ps] plain_no_less [of ps] has_tag_less by blast
  then show ?thesis
    by (simp add: update_from_feed_strings [OF assms])
qed


theorem refresh_strips_three_fields_witness:
  "fe_otherAdvice example_entry = PStr ''<p>Allow extra time</p>''
   \<and> fe_adviceOther example_entry = PStr ''Use <i>an alternative</i> route''
   \<and> fe_diversions example_entry = PStr ''<<b>b>''
   \<and> fe_coordinates example_entry = Some [PInt (- 33), PInt 151]
   \<and> snd (update_from_feed (example_event ''incident-open'') example_entry) = None
   \<and> ev_otherAdvice example_refreshed = Some (PStr ''Allow extra time'')
   \<and> ev_adviceOther example_refreshed = PStr ''Use an alternative route''
   \<and> ev_adviceB example_refreshed = PStr ''Exercise caution''
   \<and> ev_latitude example_refreshed = PInt (- 33)
   \<and> list_all well_formed
        [Text ''Use '', Tag ''i'', Text ''an alternative'', Tag ''/i'', Text '' route'']
   \<and> concat (map render
        [Text ''Use '', Tag ''i'', Text ''an alternative'', Tag ''/i'', Text '' route'']) =
       ''Use <i>an alternative</i> route''
   \<and> re_sub_tags ''Use <i>an alternative</i> route'' = ''Use an alternative route''
   \<and> \<not> has_tag ''Use an alternative route''"
proof -
  have a: "fe_otherAdvice example_entry = PStr ''<p>Allow extra time</p>''"
    and b: "fe_adviceOther example_entry = PStr ''Use <i>an alternative</i> route''"
    and d: "fe_diversions example_entry = PStr ''<<b>b>''"
    and c: "fe_coordinates example_entry = Some [PInt (- 33), PInt 151]"
    by (simp_all add: example_entry_def)
  have w: "list_all well_formed
        [Text ''Use '', Tag ''i'', Text ''an alternative'', Tag ''/i'', Text '' route'']"
    by simp
  have p: "fe_adviceB example_entry = PStr ''Exercise caution''"
    by (simp add: example_entry_def)
  show ?thesis
    using a b d c w p
      refresh_strips_three_fields
        [OF a b d c, of "example_event ''incident-open''"
          "[Text ''Use '', Tag ''i'', Text ''an alternative'', Tag ''/i'', Text '' route'']"]
    by (simp add: example_refreshed_def)
qed

end
